theory Spec2Isabelle
  imports Complex_Main
begin

unbundle bit_operations_syntax

section \<open>A shallow embedding of \<open>basic_bot.py\<close>\<close>

text \<open>
  The signed-request pipeline and the order and TWAP engine of class \<open>BasicBot\<close>.

  Conventions of the embedding.
  \<^item> A Python \<open>str\<close> is the list of the bytes of its UTF-8 encoding (\<^typ>\<open>string\<close>), so
    \<open>s.encode("utf-8")\<close> is the identity. \<open>str.upper\<close> and \<open>str.lower\<close> are the ASCII case
    maps: they agree with Python on ASCII text, which is what symbols, sides and order types
    are.
  \<^item> A Python \<open>float\<close> is the real number it denotes (no NaN, no infinity). The arithmetic
    on floats (\<open>/\<close>, \<open>+\<close>) and \<open>str\<close> of a float belong to the runtime: they are fields of
    the environment, and nothing is assumed of them but what a theorem states.
  \<^item> A Python \<open>dict\<close> is an association list in insertion order; assigning to a key that is
    present replaces its value in place, assigning to a new key appends.
  \<^item> An exception is a value: a function that can raise returns \<open>exn + 'a\<close>.
  \<^item> The world is passed explicitly: the HTTP calls issued so far, the number of clock
    readings and the sleeps. The transport, the clock and the float arithmetic are the
    environment. Calls to \<open>logger\<close> have no effect on either and are left out.
\<close>

subsection \<open>Strings\<close>

definition ascii_lowercase :: string where
  "ascii_lowercase = ''abcdefghijklmnopqrstuvwxyz''"

definition ascii_uppercase :: string where
  "ascii_uppercase = ''ABCDEFGHIJKLMNOPQRSTUVWXYZ''"

definition upper_char :: "char \<Rightarrow> char" where
  "upper_char c =
     (case map_of (zip ascii_lowercase ascii_uppercase) c of None \<Rightarrow> c | Some u \<Rightarrow> u)"

definition lower_char :: "char \<Rightarrow> char" where
  "lower_char c =
     (case map_of (zip ascii_uppercase ascii_lowercase) c of None \<Rightarrow> c | Some l \<Rightarrow> l)"

definition upper :: "string \<Rightarrow> string" where
  "upper s = map upper_char s"

definition lower :: "string \<Rightarrow> string" where
  "lower s = map lower_char s"

text \<open>\<open>s.rstrip("/")\<close>\<close>

definition rstrip_slash :: "string \<Rightarrow> string" where
  "rstrip_slash s = rev (dropWhile (\<lambda>c. c = CHR ''/'') (rev s))"

text \<open>\<open>sep.join(l)\<close>\<close>

fun join :: "string \<Rightarrow> string list \<Rightarrow> string" where
  "join sep [] = []"
| "join sep [x] = x"
| "join sep (x # y # ys) = x @ sep @ join sep (y # ys)"

definition DIGITS :: string where
  "DIGITS = ''0123456789''"

text \<open>\<open>str(n)\<close> of an \<open>int\<close>: its decimal digits, with a sign when negative.\<close>

function str_nonneg :: "int \<Rightarrow> string" where
  "str_nonneg n =
     (if n < 10 then [DIGITS ! nat n] else str_nonneg (n div 10) @ [DIGITS ! nat (n mod 10)])"
  by pat_completeness auto
termination
  by (relation "measure nat") auto

declare str_nonneg.simps [simp del]

definition str_int :: "int \<Rightarrow> string" where
  "str_int n = (if n < 0 then CHR ''-'' # str_nonneg (- n) else str_nonneg n)"

text \<open>\<open>str(b)\<close> of a \<open>bool\<close>\<close>

definition str_bool :: "bool \<Rightarrow> string" where
  "str_bool b = (if b then ''True'' else ''False'')"

subsection \<open>Values\<close>

text \<open>
  A parsed JSON body (what \<open>resp.json()\<close> returns). The keys of a \<open>JDict\<close> are distinct, as
  those of the dict are.
\<close>

datatype json =
    JNull
  | JBool bool
  | JInt int
  | JFloat real
  | JStr string
  | JList "json list"
  | JDict "(string \<times> json) list"

text \<open>A value of a request parameter. The program stores strings, ints and floats.\<close>

datatype pval = VStr string | VInt int | VFloat real | VBool bool | VNone

type_synonym params = "(string \<times> pval) list"

text \<open>\<open>d[k] = v\<close> on an insertion-ordered dict\<close>

fun dict_set :: "('k \<times> 'v) list \<Rightarrow> 'k \<Rightarrow> 'v \<Rightarrow> ('k \<times> 'v) list" where
  "dict_set [] k v = [(k, v)]"
| "dict_set ((k', v') # d) k v = (if k' = k then (k', v) # d else (k', v') # dict_set d k v)"

text \<open>Python's truth value of a JSON value\<close>

fun truthy :: "json \<Rightarrow> bool" where
  "truthy JNull = False"
| "truthy (JBool b) = b"
| "truthy (JInt n) = (n \<noteq> 0)"
| "truthy (JFloat x) = (x \<noteq> 0)"
| "truthy (JStr s) = (s \<noteq> [])"
| "truthy (JList xs) = (xs \<noteq> [])"
| "truthy (JDict kvs) = (kvs \<noteq> [])"

subsection \<open>Exceptions and results\<close>

text \<open>
  The message of a \<open>BinanceAPIError\<close> is an f-string; it is kept as its parts:
  \<open>f"HTTP {resp.status_code} error: {msg}"\<close> is \<open>HTTP_error status msg\<close> and
  \<open>f"Binance error: {j}"\<close> is \<open>Binance_error j\<close>.
\<close>

datatype api_message = HTTP_error int json | Binance_error json

datatype exn =
    ValueError string
  | BinanceAPIError api_message
  | RequestException string
  | JSONDecodeError
  | KeyError string
  | TypeError
  | AttributeError

text \<open>
  What \<open>request\<close> returns and what a TWAP run collects: the parsed body \<open>j\<close>, the dict
  \<open>{"dry_run": True, "method": method, "url": url, "params": full_params}\<close>, or, in a TWAP
  run, \<open>{"error": str(e)}\<close> (kept as the exception itself).
\<close>

datatype result =
    Payload json
  | DryRun string string params
  | ErrorEntry exn

subsection \<open>The transport, the clock and the runtime\<close>

datatype verb = GET | POST | DELETE

record http_call =
  call_verb :: verb
  call_url :: string
  call_params :: params
  call_timeout :: int

text \<open>
  A \<open>requests.Response\<close>: \<open>json_body\<close> is what \<open>resp.json()\<close> returns, \<open>None\<close> when it
  raises. \<open>resp.ok\<close> is false exactly for a status from 400 to 599.
\<close>

record response =
  status_code :: int
  resp_text :: string
  json_body :: "json option"

definition ok :: "response \<Rightarrow> bool" where
  "ok r = (\<not> (400 \<le> status_code r \<and> status_code r < 600))"

datatype outcome = Responds response | Raises string

text \<open>
  \<open>transport n c\<close> is what the session answers to call \<open>c\<close> when \<open>n\<close> calls were issued before
  it; \<open>time_ms n\<close> is the value of \<open>int(time.time() * 1000)\<close> at the \<open>n\<close>-th reading of the
  clock.
\<close>

record env =
  transport :: "nat \<Rightarrow> http_call \<Rightarrow> outcome"
  time_ms :: "nat \<Rightarrow> int"
  float_div :: "real \<Rightarrow> real \<Rightarrow> real"
  float_add :: "real \<Rightarrow> real \<Rightarrow> real"
  float_str :: "real \<Rightarrow> string"

record world =
  calls :: "http_call list"
  clock_reads :: nat
  sleeps :: "real list"

text \<open>\<open>self.session.get/post/delete(url, params=..., timeout=...)\<close>\<close>

definition session_call :: "env \<Rightarrow> http_call \<Rightarrow> world \<Rightarrow> outcome \<times> world" where
  "session_call e c w = (transport e (length (calls w)) c, w\<lparr>calls := calls w @ [c]\<rparr>)"

subsection \<open>\<open>urllib.parse.urlencode\<close>\<close>

definition ALWAYS_SAFE :: string where
  "ALWAYS_SAFE = ''ABCDEFGHIJKLMNOPQRSTUVWXYZabcdefghijklmnopqrstuvwxyz0123456789_.-~''"

definition HEX_UPPER :: string where
  "HEX_UPPER = ''0123456789ABCDEF''"

text \<open>\<open>'%{:02X}'.format(byte)\<close>\<close>

definition pct_encode :: "char \<Rightarrow> string" where
  "pct_encode c =
     (let n = (of_char c :: nat) in [CHR ''%'', HEX_UPPER ! (n div 16), HEX_UPPER ! (n mod 16)])"

text \<open>
  \<open>quote_plus(s, safe='')\<close>: a space becomes \<open>+\<close>, a byte of the always-safe set stays, every
  other byte of the UTF-8 encoding is percent-encoded.
\<close>

definition quote_plus :: "string \<Rightarrow> string" where
  "quote_plus s =
     concat (map (\<lambda>c. if c = CHR '' '' then ''+''
                       else if c \<in> set ALWAYS_SAFE then [c] else pct_encode c) s)"

text \<open>\<open>str(v)\<close> of a parameter value\<close>

fun py_str :: "env \<Rightarrow> pval \<Rightarrow> string" where
  "py_str e (VStr s) = s"
| "py_str e (VInt n) = str_int n"
| "py_str e (VFloat x) = float_str e x"
| "py_str e (VBool b) = str_bool b"
| "py_str e VNone = ''None''"

text \<open>
  \<open>urlencode(query, doseq=True)\<close>: the loop over \<open>query.items()\<close> appends one \<open>k=v\<close> to the
  list \<open>l\<close> per item, then \<open>'&'.join(l)\<close>.
\<close>

fun urlencode_loop :: "env \<Rightarrow> params \<Rightarrow> string list \<Rightarrow> string list" where
  "urlencode_loop e [] l = l"
| "urlencode_loop e ((k, v) # query) l =
     urlencode_loop e query (l @ [quote_plus k @ ''='' @ quote_plus (py_str e v)])"

definition urlencode :: "env \<Rightarrow> params \<Rightarrow> string" where
  "urlencode e query = join ''&'' (urlencode_loop e query [])"

subsection \<open>\<open>hashlib.sha256\<close> and \<open>hmac\<close>\<close>

text \<open>
  SHA-256 (FIPS 180-4) and HMAC (RFC 2104). A byte is an \<open>int\<close> from 0 to 255, a word an
  \<open>int\<close> below \<open>2 ^ 32\<close>, with the reduction modulo \<open>2 ^ 32\<close> written out.
\<close>

definition add32 :: "int \<Rightarrow> int \<Rightarrow> int" where
  "add32 x y = (x + y) mod 4294967296"

definition rotr :: "nat \<Rightarrow> int \<Rightarrow> int" where
  "rotr n x = x div 2 ^ n + (x mod 2 ^ n) * 2 ^ (32 - n)"

definition Ch :: "int \<Rightarrow> int \<Rightarrow> int \<Rightarrow> int" where
  "Ch x y z = (x AND y) XOR ((4294967295 - x) AND z)"

definition Maj :: "int \<Rightarrow> int \<Rightarrow> int \<Rightarrow> int" where
  "Maj x y z = (x AND y) XOR (x AND z) XOR (y AND z)"

definition bsig0 :: "int \<Rightarrow> int" where
  "bsig0 x = rotr 2 x XOR rotr 13 x XOR rotr 22 x"

definition bsig1 :: "int \<Rightarrow> int" where
  "bsig1 x = rotr 6 x XOR rotr 11 x XOR rotr 25 x"

definition ssig0 :: "int \<Rightarrow> int" where
  "ssig0 x = rotr 7 x XOR rotr 18 x XOR (x div 2 ^ 3)"

definition ssig1 :: "int \<Rightarrow> int" where
  "ssig1 x = rotr 17 x XOR rotr 19 x XOR (x div 2 ^ 10)"

text \<open>
  The round constants and the initial hash value of FIPS 180-4, in decimal: \<open>K256 ! 0\<close> is
  \<open>0x428a2f98\<close> and \<open>H256 ! 0\<close> is \<open>0x6a09e667\<close>.
\<close>

definition K256 :: "int list" where
  "K256 = [
    1116352408, 1899447441, 3049323471, 3921009573, 961987163, 1508970993,
    2453635748, 2870763221, 3624381080, 310598401, 607225278, 1426881987,
    1925078388, 2162078206, 2614888103, 3248222580, 3835390401, 4022224774,
    264347078, 604807628, 770255983, 1249150122, 1555081692, 1996064986,
    2554220882, 2821834349, 2952996808, 3210313671, 3336571891, 3584528711,
    113926993, 338241895, 666307205, 773529912, 1294757372, 1396182291,
    1695183700, 1986661051, 2177026350, 2456956037, 2730485921, 2820302411,
    3259730800, 3345764771, 3516065817, 3600352804, 4094571909, 275423344,
    430227734, 506948616, 659060556, 883997877, 958139571, 1322822218,
    1537002063, 1747873779, 1955562222, 2024104815, 2227730452, 2361852424,
    2428436474, 2756734187, 3204031479, 3329325298]"

definition H256 :: "int list" where
  "H256 = [1779033703, 3144134277, 1013904242, 2773480762,
           1359893119, 2600822924, 528734635, 1541459225]"

text \<open>The big-endian words of a block\<close>

fun be32 :: "int list \<Rightarrow> int list" where
  "be32 (a # b # c # d # bs) = (((a * 256 + b) * 256 + c) * 256 + d) # be32 bs"
| "be32 bs = []"

text \<open>
  The message schedule, most recent word first: \<open>ws ! 1\<close> is \<open>W[t-2]\<close>, \<open>ws ! 6\<close> is
  \<open>W[t-7]\<close>, \<open>ws ! 14\<close> is \<open>W[t-15]\<close> and \<open>ws ! 15\<close> is \<open>W[t-16]\<close>.
\<close>

fun schedule :: "nat \<Rightarrow> int list \<Rightarrow> int list" where
  "schedule 0 ws = ws"
| "schedule (Suc n) ws =
     schedule n (add32 (add32 (ssig1 (ws ! 1)) (ws ! 6)) (add32 (ssig0 (ws ! 14)) (ws ! 15)) # ws)"

type_synonym st256 = "int \<times> int \<times> int \<times> int \<times> int \<times> int \<times> int \<times> int"

definition round256 :: "st256 \<Rightarrow> int \<times> int \<Rightarrow> st256" where
  "round256 s kw =
     (case s of (a, b, c, d, e, f, g, h) \<Rightarrow>
        (let t1 = (h + bsig1 e + Ch e f g + fst kw + snd kw) mod 4294967296;
             t2 = (bsig0 a + Maj a b c) mod 4294967296
         in (add32 t1 t2, a, b, c, add32 d t1, e, f, g)))"

definition st_of :: "int list \<Rightarrow> st256" where
  "st_of hs = (hs ! 0, hs ! 1, hs ! 2, hs ! 3, hs ! 4, hs ! 5, hs ! 6, hs ! 7)"

definition list_of_st :: "st256 \<Rightarrow> int list" where
  "list_of_st s = (case s of (a, b, c, d, e, f, g, h) \<Rightarrow> [a, b, c, d, e, f, g, h])"

definition compress :: "int list \<Rightarrow> int list \<Rightarrow> int list" where
  "compress hs block =
     (let ws = rev (schedule 48 (rev (be32 block)))
      in map2 add32 hs (list_of_st (foldl round256 (st_of hs) (zip K256 ws))))"

fun chunks :: "nat \<Rightarrow> 'a list \<Rightarrow> 'a list list" where
  "chunks n [] = []"
| "chunks n (x # xs) =
     (if n = 0 then [x # xs] else take n (x # xs) # chunks n (drop n (x # xs)))"

text \<open>The \<open>k\<close> low bytes of \<open>x\<close>, most significant first\<close>

definition be_bytes :: "nat \<Rightarrow> int \<Rightarrow> int list" where
  "be_bytes k x = map (\<lambda>i. x div 256 ^ i mod 256) (rev [0..<k])"

definition pad256 :: "int list \<Rightarrow> int list" where
  "pad256 m =
     m @ [0x80] @ replicate ((119 - length m mod 64) mod 64) 0
       @ be_bytes 8 (8 * int (length m) mod 2 ^ 64)"

definition sha256 :: "int list \<Rightarrow> int list" where
  "sha256 m = concat (map (be_bytes 4) (foldl compress H256 (chunks 64 (pad256 m))))"

definition hmac_sha256 :: "int list \<Rightarrow> int list \<Rightarrow> int list" where
  "hmac_sha256 key msg =
     (let k0 = (if length key > 64 then sha256 key else key);
          k = k0 @ replicate (64 - length k0) 0
      in sha256 (map (\<lambda>b. b XOR 0x5c) k @ sha256 (map (\<lambda>b. b XOR 0x36) k @ msg)))"

definition HEX_LOWER :: string where
  "HEX_LOWER = ''0123456789abcdef''"

text \<open>\<open>.hexdigest()\<close>\<close>

definition hexdigest :: "int list \<Rightarrow> string" where
  "hexdigest bs = concat (map (\<lambda>b. [HEX_LOWER ! nat (b div 16), HEX_LOWER ! nat (b mod 16)]) bs)"

definition bytes_of :: "string \<Rightarrow> int list" where
  "bytes_of s = map of_char s"

subsection \<open>\<open>BasicBot\<close>\<close>

definition TESTNET_BASE :: string where
  "TESTNET_BASE = ''https://testnet.binancefuture.com''"

definition ORDER_PATH :: string where
  "ORDER_PATH = ''/fapi/v1/order''"

definition RECV_WINDOW :: int where
  "RECV_WINDOW = 15000"

record bot =
  api_key :: string
  api_secret :: string
  base_url :: string
  dry_run :: bool

text \<open>
  \<open>BasicBot.__init__\<close>. The session and its constant header \<open>X-MBX-APIKEY\<close> are the
  transport of the environment.
\<close>

definition BasicBot :: "string \<Rightarrow> string \<Rightarrow> string \<Rightarrow> bool \<Rightarrow> bot" where
  "BasicBot key secret url dry =
     \<lparr>api_key = key, api_secret = secret, base_url = rstrip_slash url, dry_run = dry\<rparr>"

text \<open>\<open>data["serverTime"]\<close>: only a dict can be subscripted by a string.\<close>

fun getitem :: "json \<Rightarrow> string \<Rightarrow> exn + json" where
  "getitem (JDict kvs) k = (case map_of kvs k of None \<Rightarrow> Inl (KeyError k) | Some v \<Rightarrow> Inr v)"
| "getitem j k = Inl TypeError"

text \<open>\<open>get_server_time\<close> (lines 80 to 85)\<close>

definition time_call :: "bot \<Rightarrow> http_call" where
  "time_call b =
     \<lparr>call_verb = GET, call_url = base_url b @ ''/fapi/v1/time'', call_params = [],
      call_timeout = 5\<rparr>"

definition get_server_time :: "env \<Rightarrow> bot \<Rightarrow> world \<Rightarrow> (exn + json) \<times> world" where
  "get_server_time e b w =
     (case session_call e (time_call b) w of
        (Raises m, w') \<Rightarrow> (Inl (RequestException m), w')
      | (Responds resp, w') \<Rightarrow>
          (case json_body resp of
             None \<Rightarrow> (Inl JSONDecodeError, w')
           | Some data \<Rightarrow> (getitem data ''serverTime'', w')))"

text \<open>\<open>sign\<close> is \<open>_sign\<close> (lines 87 to 94)\<close>

definition sign :: "env \<Rightarrow> bot \<Rightarrow> params \<Rightarrow> string" where
  "sign e b ps =
     (let qs = urlencode e ps
      in hexdigest (hmac_sha256 (bytes_of (api_secret b)) (bytes_of qs)))"

text \<open>\<open>server_time + 500\<close>: defined on numbers, a \<open>TypeError\<close> on everything else.\<close>

fun plus_500 :: "env \<Rightarrow> json \<Rightarrow> exn + pval" where
  "plus_500 e (JInt t) = Inr (VInt (t + 500))"
| "plus_500 e (JBool t) = Inr (VInt ((if t then 1 else 0) + 500))"
| "plus_500 e (JFloat t) = Inr (VFloat (float_add e t 500))"
| "plus_500 e j = Inl TypeError"

text \<open>The \<open>except\<close> branch of \<open>_timestamped_params\<close>: one reading of the local clock.\<close>

definition local_time :: "env \<Rightarrow> world \<Rightarrow> pval \<times> world" where
  "local_time e w = (VInt (time_ms e (clock_reads w)), w\<lparr>clock_reads := Suc (clock_reads w)\<rparr>)"

text \<open>\<open>timestamped_params\<close> is \<open>_timestamped_params\<close> (lines 96 to 105)\<close>

definition timestamped_params :: "env \<Rightarrow> bot \<Rightarrow> params \<Rightarrow> world \<Rightarrow> params \<times> world" where
  "timestamped_params e b extra w =
     (let p = extra;
          (ts, w2) =
            (case get_server_time e b w of
               (Inl ex, w1) \<Rightarrow> local_time e w1
             | (Inr server_time, w1) \<Rightarrow>
                 (case plus_500 e server_time of
                    Inl ex \<Rightarrow> local_time e w1
                  | Inr t \<Rightarrow> (t, w1)));
          p = dict_set p ''timestamp'' ts;
          p = dict_set p ''recvWindow'' (VInt RECV_WINDOW)
      in (p, w2))"

text \<open>Lines 116 to 121 of \<open>request\<close>: the parameters that are sent.\<close>

definition full_params :: "env \<Rightarrow> bot \<Rightarrow> params \<Rightarrow> bool \<Rightarrow> world \<Rightarrow> params \<times> world" where
  "full_params e b ps signed w =
     (if signed then
        (case timestamped_params e b ps w of
           (fp, w1) \<Rightarrow> (dict_set fp ''signature'' (VStr (sign e b fp)), w1))
      else (ps, w))"

text \<open>\<open>j.get(k)\<close>: \<open>None\<close> for a missing key, an \<open>AttributeError\<close> when \<open>j\<close> is not a dict.\<close>

fun get :: "json \<Rightarrow> string \<Rightarrow> exn + json" where
  "get (JDict kvs) k = (case map_of kvs k of None \<Rightarrow> Inr JNull | Some v \<Rightarrow> Inr v)"
| "get j k = Inl AttributeError"

text \<open>\<open>c < 0\<close> for a truthy \<open>c\<close>: a comparison of numbers, a \<open>TypeError\<close> otherwise.\<close>

fun less_zero :: "json \<Rightarrow> exn + bool" where
  "less_zero (JInt n) = Inr (n < 0)"
| "less_zero (JFloat x) = Inr (x < 0)"
| "less_zero (JBool t) = Inr False"
| "less_zero j = Inl TypeError"

text \<open>Lines 140 to 153 of \<open>request\<close>: the response is read and classified.\<close>

definition classify :: "response \<Rightarrow> exn + result" where
  "classify resp =
     (case (if resp_text resp \<noteq> [] then json_body resp else Some (JDict [])) of
        None \<Rightarrow> Inl JSONDecodeError
      | Some j \<Rightarrow>
          if \<not> ok resp then
            (case get j ''msg'' of
               Inl ex \<Rightarrow> Inl ex
             | Inr m \<Rightarrow>
                 Inl (BinanceAPIError
                   (HTTP_error (status_code resp) (if truthy m then m else JStr (resp_text resp)))))
          else
            (case j of
               JDict kvs \<Rightarrow>
                 (case get j ''code'' of
                    Inl ex \<Rightarrow> Inl ex
                  | Inr c \<Rightarrow>
                      if truthy c then
                        (case less_zero c of
                           Inl ex \<Rightarrow> Inl ex
                         | Inr neg \<Rightarrow>
                             if neg then Inl (BinanceAPIError (Binance_error j))
                             else Inr (Payload j))
                      else Inr (Payload j))
             | _ \<Rightarrow> Inr (Payload j)))"

text \<open>
  Lines 130 to 138 of \<open>request\<close>: the session method chosen by \<open>method.upper()\<close>, with the
  timeout of 10 seconds.
\<close>

definition verb_of :: "string \<Rightarrow> verb option" where
  "verb_of meth =
     (if upper meth = ''GET'' then Some GET
      else if upper meth = ''POST'' then Some POST
      else if upper meth = ''DELETE'' then Some DELETE
      else None)"

text \<open>\<open>request\<close> (lines 107 to 157)\<close>

definition request ::
  "env \<Rightarrow> bot \<Rightarrow> string \<Rightarrow> string \<Rightarrow> params option \<Rightarrow> bool \<Rightarrow> world \<Rightarrow> (exn + result) \<times> world"
where
  "request e b meth path ps signed w =
     (let ps = (case ps of None \<Rightarrow> [] | Some d \<Rightarrow> d);
          url = base_url b @ path
      in case full_params e b ps signed w of
           (fp, w1) \<Rightarrow>
             if dry_run b then (Inr (DryRun meth url fp), w1)
             else
               (case verb_of meth of
                  None \<Rightarrow> (Inl (ValueError (''Unsupported method: '' @ meth)), w1)
                | Some v \<Rightarrow>
                    (case session_call e
                            \<lparr>call_verb = v, call_url = url, call_params = fp, call_timeout = 10\<rparr>
                            w1 of
                       (Raises m, w2) \<Rightarrow> (Inl (RequestException m), w2)
                     | (Responds resp, w2) \<Rightarrow> (classify resp, w2))))"

text \<open>
  \<open>place_order\<close> (lines 159 to 196). \<open>float(quantity)\<close> is the identity on a float;
  \<open>if position_side\<close> holds for a string that is present and not empty.
\<close>

definition place_order ::
  "env \<Rightarrow> bot \<Rightarrow> string \<Rightarrow> string \<Rightarrow> string \<Rightarrow> real \<Rightarrow> real option \<Rightarrow> string \<Rightarrow> bool \<Rightarrow> bool
     \<Rightarrow> string option \<Rightarrow> world \<Rightarrow> (exn + result) \<times> world"
where
  "place_order e b symbol side order_type quantity price time_in_force reduce_only
     close_position position_side w =
     (let symbol = upper symbol;
          side = upper side;
          order_type = upper order_type
      in if side \<noteq> ''BUY'' \<and> side \<noteq> ''SELL'' then
           (Inl (ValueError ''side must be BUY or SELL''), w)
         else if order_type \<noteq> ''MARKET'' \<and> order_type \<noteq> ''LIMIT'' then
           (Inl (ValueError ''order_type must be MARKET or LIMIT''), w)
         else
           (let ps = [(''symbol'', VStr symbol),
                      (''side'', VStr side),
                      (''type'', VStr order_type),
                      (''quantity'', VFloat quantity),
                      (''reduceOnly'', VStr (lower (str_bool reduce_only))),
                      (''closePosition'', VStr (lower (str_bool close_position)))];
                ps = (case position_side of
                        None \<Rightarrow> ps
                      | Some s \<Rightarrow> if s \<noteq> [] then dict_set ps ''positionSide'' (VStr s) else ps)
            in if order_type = ''LIMIT'' then
                 (case price of
                    None \<Rightarrow> (Inl (ValueError ''LIMIT orders require a price''), w)
                  | Some pr \<Rightarrow>
                      (let ps = dict_set ps ''price'' (VStr (float_str e pr));
                           ps = dict_set ps ''timeInForce'' (VStr time_in_force)
                       in request e b ''POST'' ORDER_PATH (Some ps) True w))
               else request e b ''POST'' ORDER_PATH (Some ps) True w))"

text \<open>\<open>place_market_order\<close> (lines 198 and 199)\<close>

definition place_market_order ::
  "env \<Rightarrow> bot \<Rightarrow> string \<Rightarrow> string \<Rightarrow> real \<Rightarrow> bool \<Rightarrow> string option \<Rightarrow> world \<Rightarrow> (exn + result) \<times> world"
where
  "place_market_order e b symbol side quantity reduce_only position_side w =
     place_order e b symbol side ''MARKET'' quantity None ''GTC'' reduce_only False
       position_side w"

text \<open>\<open>place_limit_order\<close> (lines 201 to 203)\<close>

definition place_limit_order ::
  "env \<Rightarrow> bot \<Rightarrow> string \<Rightarrow> string \<Rightarrow> real \<Rightarrow> real \<Rightarrow> string \<Rightarrow> bool \<Rightarrow> string option \<Rightarrow> world
     \<Rightarrow> (exn + result) \<times> world"
where
  "place_limit_order e b symbol side quantity price time_in_force reduce_only position_side w =
     place_order e b symbol side ''LIMIT'' quantity (Some price) time_in_force reduce_only False
       position_side w"

text \<open>\<open>time.sleep(interval)\<close>\<close>

definition sleep :: "real \<Rightarrow> world \<Rightarrow> world" where
  "sleep t w = w\<lparr>sleeps := sleeps w @ [t]\<rparr>"

text \<open>The body of the loop of \<open>place_twap_order\<close> (lines 221 to 229), for one \<open>i\<close>.\<close>

definition twap_slice ::
  "env \<Rightarrow> bot \<Rightarrow> string \<Rightarrow> string \<Rightarrow> real \<Rightarrow> real \<Rightarrow> int \<Rightarrow> int \<Rightarrow> world \<Rightarrow> result \<times> world"
where
  "twap_slice e b symbol side slice_qty interval slices i w =
     (case place_market_order e b symbol side slice_qty False None w of
        (r, w1) \<Rightarrow>
          ((case r of Inr resp \<Rightarrow> resp | Inl ex \<Rightarrow> ErrorEntry ex),
           (if i < slices - 1 \<and> interval > 0 then sleep interval w1 else w1)))"

text \<open>The loop \<open>for i in range(slices)\<close> (lines 220 to 229), from \<open>i\<close> on.\<close>

function twap_loop ::
  "env \<Rightarrow> bot \<Rightarrow> string \<Rightarrow> string \<Rightarrow> real \<Rightarrow> real \<Rightarrow> int \<Rightarrow> int \<Rightarrow> result list \<Rightarrow> world
     \<Rightarrow> result list \<times> world"
where
  "twap_loop e b symbol side slice_qty interval slices i responses w =
     (if i < slices then
        (case twap_slice e b symbol side slice_qty interval slices i w of
           (r, w1) \<Rightarrow>
             twap_loop e b symbol side slice_qty interval slices (i + 1) (responses @ [r]) w1)
      else (responses, w))"
  by pat_completeness auto
termination
  by (relation "measure (\<lambda>(e, b, symbol, side, slice_qty, interval, slices, i, responses, w).
        nat (slices - i))") auto

declare twap_loop.simps [simp del]

text \<open>\<open>place_twap_order\<close> (lines 205 to 231)\<close>

definition place_twap_order ::
  "env \<Rightarrow> bot \<Rightarrow> string \<Rightarrow> string \<Rightarrow> real \<Rightarrow> int \<Rightarrow> int \<Rightarrow> world
     \<Rightarrow> (exn + result list) \<times> world"
where
  "place_twap_order e b symbol side quantity slices duration w =
     (if slices < 1 then (Inl (ValueError ''slices must be >= 1''), w)
      else if duration < 0 then (Inl (ValueError ''duration must be >= 0''), w)
      else
        (let slice_qty = float_div e quantity (of_int slices);
             interval = (if slices > 0 then float_div e (of_int duration) (of_int slices) else 0)
         in case twap_loop e b symbol side slice_qty interval slices 0 [] w of
              (responses, w1) \<Rightarrow> (Inr responses, w1)))"

subsection \<open>The worlds of a TWAP run\<close>


subsection \<open>Example environments\<close>

text \<open>
  \<open>str\<close> of a float that is a multiple of \<open>1/1000\<close>, of magnitude from \<open>0.001\<close> to below
  \<open>10 ^ 16\<close>: the decimal expansion with at least one digit after the point, as Python
  prints it (\<open>0.125\<close>, \<open>15.0\<close>, \<open>62000.0\<close>).
\<close>

definition float_str3 :: "real \<Rightarrow> string" where
  "float_str3 x =
     (let n = \<lfloor>\<bar>x\<bar> * 1000\<rfloor>;
          f = n mod 1000;
          ds = [DIGITS ! nat (f div 100), DIGITS ! nat (f div 10 mod 10), DIGITS ! nat (f mod 10)];
          kept = rev (dropWhile (\<lambda>c. c = CHR ''0'') (rev ds))
      in (if x < 0 then ''-'' else []) @ str_nonneg (n div 1000) @ ''.''
           @ (if kept = [] then ''0'' else kept))"

text \<open>
  A transport that is down. The float arithmetic of the examples is exact and their \<open>str\<close>
  is \<open>float_str3\<close>: that is the runtime's on the floats the examples use, where the exact
  result is a float (\<open>0.5 / 4\<close> and \<open>0.375 / 3\<close> are \<open>0.125\<close>, \<open>60 / 4\<close> is \<open>15\<close>).
\<close>

definition env_down :: env where
  "env_down =
     \<lparr>transport = (\<lambda>n c. Raises ''connection refused''),
      time_ms = (\<lambda>n. 1700000000000 + int n),
      float_div = (\<lambda>x y. x / y), float_add = (\<lambda>x y. x + y), float_str = float_str3\<rparr>"

text \<open>A transport that answers every call with the same response.\<close>

definition env_answering :: "response \<Rightarrow> env" where
  "env_answering r = env_down\<lparr>transport := (\<lambda>n c. Responds r)\<rparr>"

definition w0 :: world where
  "w0 = \<lparr>calls = [], clock_reads = 0, sleeps = []\<rparr>"

definition dry_bot :: bot where
  "dry_bot = BasicBot ''key'' ''secret'' TESTNET_BASE True"

definition live_bot :: bot where
  "live_bot = BasicBot ''key'' ''secret'' TESTNET_BASE False"

text \<open>Example responses. \<open>QUOTE\<close> is the double quote of a JSON text.\<close>

definition QUOTE :: char where
  "QUOTE = CHR 0x22"

definition time_response :: response where
  "time_response =
     \<lparr>status_code = 200,
      resp_text = ''{'' @ [QUOTE] @ ''serverTime'' @ [QUOTE] @ '':1700000000000}'',
      json_body = Some (JDict [(''serverTime'', JInt 1700000000000)])\<rparr>"

definition html_response :: response where
  "html_response =
     \<lparr>status_code = 502, resp_text = ''<html>Bad Gateway</html>'', json_body = None\<rparr>"

definition not_modified_response :: response where
  "not_modified_response = \<lparr>status_code = 304, resp_text = [], json_body = None\<rparr>"

definition rejected_response :: response where
  "rejected_response =
     \<lparr>status_code = 200,
      resp_text = ''{'' @ [QUOTE] @ ''code'' @ [QUOTE] @ '':-1021,'' @ [QUOTE] @ ''msg''
                  @ [QUOTE] @ '':'' @ [QUOTE] @ ''Timestamp outside recvWindow'' @ [QUOTE] @ ''}'',
      json_body = Some (JDict [(''code'', JInt (- 1021)),
                               (''msg'', JStr ''Timestamp outside recvWindow'')])\<rparr>"

definition bad_request_response :: response where
  "bad_request_response =
     \<lparr>status_code = 400,
      resp_text = ''{'' @ [QUOTE] @ ''code'' @ [QUOTE] @ '':-1102,'' @ [QUOTE] @ ''msg''
                  @ [QUOTE] @ '':'' @ [QUOTE] @ ''Mandatory parameter missing'' @ [QUOTE] @ ''}'',
      json_body = Some (JDict [(''code'', JInt (- 1102)),
                               (''msg'', JStr ''Mandatory parameter missing'')])\<rparr>"


section \<open>Properties\<close>

lemmas str_defs = upper_def upper_char_def lower_def lower_char_def ascii_lowercase_def
  ascii_uppercase_def str_bool_def rstrip_slash_def

lemmas example_defs = env_down_def env_answering_def w0_def dry_bot_def live_bot_def
  BasicBot_def TESTNET_BASE_def ORDER_PATH_def RECV_WINDOW_def

lemmas response_defs = time_response_def html_response_def not_modified_response_def
  rejected_response_def bad_request_response_def QUOTE_def

lemma upper_examples:
  "upper ''sell'' = ''SELL''" "upper ''limit'' = ''LIMIT''" "upper ''btcusdt'' = ''BTCUSDT''"
  "upper ''hold'' = ''HOLD''" "upper ''BUY'' = ''BUY''" "upper ''BTCUSDT'' = ''BTCUSDT''"
  "upper ''MARKET'' = ''MARKET''" "upper ''SELL'' = ''SELL''" "upper ''ETHUSDT'' = ''ETHUSDT''"
  by (simp_all add: str_defs)

subsection \<open>Dicts\<close>

lemma dict_set_append:
  "k \<notin> fst ` set d \<Longrightarrow> dict_set d k v = d @ [(k, v)]"
  by (induction d) auto

lemma map_of_dict_set: "map_of (dict_set d k v) = (map_of d)(k \<mapsto> v)"
  by (induction d) auto

subsection \<open>The dispatcher, by mode and method\<close>

lemma request_dry_run:
  "dry_run b \<Longrightarrow>
     request e b meth path ps signed w =
       (case full_params e b (case ps of None \<Rightarrow> [] | Some d \<Rightarrow> d) signed w of
          (fp, w1) \<Rightarrow> (Inr (DryRun meth (base_url b @ path) fp), w1))"
  by (simp add: request_def)


lemma request_supported:
  "\<not> dry_run b \<Longrightarrow> verb_of meth = Some v \<Longrightarrow>
     request e b meth path ps signed w =
       (case full_params e b (case ps of None \<Rightarrow> [] | Some d \<Rightarrow> d) signed w of
          (fp, w1) \<Rightarrow>
            (case session_call e
                    \<lparr>call_verb = v, call_url = base_url b @ path, call_params = fp,
                     call_timeout = 10\<rparr> w1 of
               (Raises m, w2) \<Rightarrow> (Inl (RequestException m), w2)
             | (Responds resp, w2) \<Rightarrow> (classify resp, w2)))"
  by (simp add: request_def)

lemma get_server_time_world:
  "snd (get_server_time e b w) = w\<lparr>calls := calls w @ [time_call b]\<rparr>"
  by (simp add: get_server_time_def session_call_def split: outcome.splits option.splits)

lemma timestamped_params_calls:
  "calls (snd (timestamped_params e b extra w)) = calls w @ [time_call b]"
  using get_server_time_world [of e b w]
  by (auto simp: timestamped_params_def local_time_def Let_def split: prod.splits sum.splits)

lemma full_params_calls:
  "calls (snd (full_params e b ps signed w)) = calls w @ (if signed then [time_call b] else [])"
  using timestamped_params_calls [of e b ps w]
  by (auto simp: full_params_def split: prod.splits)



lemma verb_of_POST: "verb_of ''POST'' = Some POST"
  by (simp add: verb_of_def str_defs)




lemma verb_of_GET: "verb_of ''GET'' = Some GET"
  by (simp add: verb_of_def str_defs)

lemma not_dry_live_bot: "\<not> dry_run live_bot"
  by (simp add: example_defs)

lemma market_order_is_request:
  "place_market_order e live_bot ''BTCUSDT'' ''BUY'' q False None w =
     request e live_bot ''POST'' ORDER_PATH
       (Some [(''symbol'', VStr ''BTCUSDT''), (''side'', VStr ''BUY''), (''type'', VStr ''MARKET''),
              (''quantity'', VFloat q), (''reduceOnly'', VStr ''false''),
              (''closePosition'', VStr ''false'')]) True w"
  by (simp add: place_market_order_def place_order_def upper_examples lower_def lower_char_def
      ascii_lowercase_def ascii_uppercase_def str_bool_def)

lemma classify_dict:
  assumes "(if resp_text r \<noteq> [] then json_body r else Some (JDict [])) = Some (JDict kvs)"
  shows "classify r =
     (if 400 \<le> status_code r \<and> status_code r < 600 then
        Inl (BinanceAPIError (HTTP_error (status_code r)
               (case map_of kvs ''msg'' of
                  None \<Rightarrow> JStr (resp_text r)
                | Some m \<Rightarrow> if truthy m then m else JStr (resp_text r))))
      else
        (case map_of kvs ''code'' of
           None \<Rightarrow> Inr (Payload (JDict kvs))
         | Some c \<Rightarrow>
             if truthy c then
               (case less_zero c of
                  Inl ex \<Rightarrow> Inl ex
                | Inr neg \<Rightarrow>
                    if neg then Inl (BinanceAPIError (Binance_error (JDict kvs)))
                    else Inr (Payload (JDict kvs)))
             else Inr (Payload (JDict kvs))))"
  using assms by (auto simp: classify_def ok_def split: option.splits)

lemma timestamped_params_shape:
  "\<exists>ts w2. timestamped_params e b extra w =
      (dict_set (dict_set extra ''timestamp'' ts) ''recvWindow'' (VInt 15000), w2)"
  by (auto simp: timestamped_params_def Let_def RECV_WINDOW_def split: prod.splits)

lemma full_params_signed_shape:
  "\<exists>ts w2. full_params e b ps True w =
      (dict_set (dict_set (dict_set ps ''timestamp'' ts) ''recvWindow'' (VInt 15000)) ''signature''
         (VStr (sign e b (dict_set (dict_set ps ''timestamp'' ts) ''recvWindow'' (VInt 15000)))),
       w2)"
  using timestamped_params_shape [of e b ps w]
  by (auto simp: full_params_def)






text \<open>
  C2, as the code has it. For a request that is sent and answered with a body that is empty
  or parses to a JSON object: a status from 400 to 599 (\<open>not resp.ok\<close>) raises
  \<open>BinanceAPIError\<close> with the \<open>msg\<close> of the body, or the raw text when \<open>msg\<close> is missing or
  falsy; any other status, every 2xx among them, whose body has a negative \<open>code\<close> raises
  \<open>BinanceAPIError\<close> as well.
\<close>

theorem request_classifies_response:
  assumes "\<not> dry_run b" and "verb_of meth = Some v"
    and "full_params e b (case ps of None \<Rightarrow> [] | Some d \<Rightarrow> d) signed w = (fp, w1)"
    and "transport e (length (calls w1))
           \<lparr>call_verb = v, call_url = base_url b @ path, call_params = fp, call_timeout = 10\<rparr>
         = Responds r"
    and "(if resp_text r \<noteq> [] then json_body r else Some (JDict [])) = Some (JDict kvs)"
  shows "(400 \<le> status_code r \<and> status_code r < 600 \<longrightarrow>
            fst (request e b meth path ps signed w) =
              Inl (BinanceAPIError (HTTP_error (status_code r)
                     (case map_of kvs ''msg'' of
                        None \<Rightarrow> JStr (resp_text r)
                      | Some m \<Rightarrow> if truthy m then m else JStr (resp_text r)))))
       \<and> (\<not> (400 \<le> status_code r \<and> status_code r < 600)
            \<and> (map_of kvs ''code'' = Some (JInt n) \<and> n < 0
                \<or> map_of kvs ''code'' = Some (JFloat x) \<and> x < 0)
           \<longrightarrow> fst (request e b meth path ps signed w) =
                 Inl (BinanceAPIError (Binance_error (JDict kvs))))"
  using assms(3,4) classify_dict [OF assms(5)]
  by (auto simp: request_supported [OF assms(1,2)] session_call_def)

theorem request_classifies_response_witness:
  "\<not> dry_run live_bot \<and> verb_of ''POST'' = Some POST
   \<and> status_code bad_request_response = 400
   \<and> fst (request (env_answering bad_request_response) live_bot ''POST'' ORDER_PATH None False w0)
       = Inl (BinanceAPIError (HTTP_error 400 (JStr ''Mandatory parameter missing'')))
   \<and> status_code rejected_response = 200
   \<and> fst (place_market_order (env_answering rejected_response) live_bot ''BTCUSDT'' ''BUY''
             (1/8) False None w0)
       = Inl (BinanceAPIError (Binance_error
           (JDict [(''code'', JInt (- 1021)), (''msg'', JStr ''Timestamp outside recvWindow'')])))"
proof -
  let ?bad = "env_answering bad_request_response"
  let ?rej = "env_answering rejected_response"
  let ?ps = "[(''symbol'', VStr ''BTCUSDT''), (''side'', VStr ''BUY''), (''type'', VStr ''MARKET''),
              (''quantity'', VFloat (1/8)), (''reduceOnly'', VStr ''false''),
              (''closePosition'', VStr ''false'')]"
  have a: "full_params ?bad live_bot (case None of None \<Rightarrow> [] | Some d \<Rightarrow> d) False w0 = ([], w0)"
    by (simp add: full_params_def)
  have b: "transport ?bad (length (calls w0))
             \<lparr>call_verb = POST, call_url = base_url live_bot @ ORDER_PATH, call_params = [],
              call_timeout = 10\<rparr> = Responds bad_request_response"
    by (simp add: env_answering_def)
  have c: "(if resp_text bad_request_response \<noteq> [] then json_body bad_request_response
            else Some (JDict []))
           = Some (JDict [(''code'', JInt (- 1102)), (''msg'', JStr ''Mandatory parameter missing'')])"
    by (simp add: response_defs)
  have 1: "fst (request ?bad live_bot ''POST'' ORDER_PATH None False w0)
       = Inl (BinanceAPIError (HTTP_error 400 (JStr ''Mandatory parameter missing'')))"
    using request_classifies_response [OF not_dry_live_bot verb_of_POST a b c, of 0 0]
    by (simp add: response_defs)
  obtain fp w1 where d:
    "full_params ?rej live_bot (case Some ?ps of None \<Rightarrow> [] | Some d \<Rightarrow> d) True w0 = (fp, w1)"
    by (cases "full_params ?rej live_bot (case Some ?ps of None \<Rightarrow> [] | Some d \<Rightarrow> d) True w0")
  have e: "transport ?rej (length (calls w1))
             \<lparr>call_verb = POST, call_url = base_url live_bot @ ORDER_PATH, call_params = fp,
              call_timeout = 10\<rparr> = Responds rejected_response"
    by (simp add: env_answering_def)
  have f: "(if resp_text rejected_response \<noteq> [] then json_body rejected_response
            else Some (JDict []))
           = Some (JDict [(''code'', JInt (- 1021)), (''msg'', JStr ''Timestamp outside recvWindow'')])"
    by (simp add: response_defs)
  have 2: "fst (place_market_order ?rej live_bot ''BTCUSDT'' ''BUY'' (1/8) False None w0)
       = Inl (BinanceAPIError (Binance_error
           (JDict [(''code'', JInt (- 1021)), (''msg'', JStr ''Timestamp outside recvWindow'')])))"
    using request_classifies_response [OF not_dry_live_bot verb_of_POST d e f, of "- 1021" 0]
    by (simp add: response_defs market_order_is_request)
  show ?thesis
    using 1 2 not_dry_live_bot verb_of_POST by (simp add: response_defs)
qed

text \<open>
  C2 as stated fails: a status 304 with an empty body is returned as a success (\<open>resp.ok\<close> is
  true below 400), and a status 502 whose body is not JSON raises the decoding error of
  \<open>resp.json()\<close>, not \<open>BinanceAPIError\<close>.
\<close>

theorem request_classifies_counterexample:
  "status_code not_modified_response = 304
   \<and> fst (request (env_answering not_modified_response) live_bot ''GET'' ''/fapi/v1/time'' None
             False w0) = Inr (Payload (JDict []))
   \<and> status_code html_response = 502
   \<and> fst (request (env_answering html_response) live_bot ''POST'' ORDER_PATH None False w0)
       = Inl JSONDecodeError"
  by (simp add: request_supported [OF not_dry_live_bot verb_of_GET]
      request_supported [OF not_dry_live_bot verb_of_POST] full_params_def session_call_def
      classify_def ok_def env_answering_def response_defs)

text \<open>
  C1, at \<open>place_market_order("BTCUSDT", "BUY", q)\<close> with dry-run on, for every quantity
  \<open>q\<close> (\<open>0.001\<close> among them), transport and clock: the result is the
  echo with the signed parameters (\<open>timestamp\<close>, \<open>recvWindow\<close> and \<open>signature\<close> last), but one
  HTTP call is issued on the way, the \<open>GET\<close> of the server time in \<open>_timestamped_params\<close>,
  although \<open>--dry-run\<close> is documented as "Do not send requests".
\<close>

theorem dry_run_market_order_time_call:
  "calls (snd (place_market_order e (BasicBot k s TESTNET_BASE True) ''BTCUSDT'' ''BUY'' q
                 False None w))
     = calls w @ [\<lparr>call_verb = GET,
                    call_url = ''https://testnet.binancefuture.com/fapi/v1/time'',
                    call_params = [], call_timeout = 5\<rparr>]
   \<and> (\<exists>ts. fst (place_market_order e (BasicBot k s TESTNET_BASE True) ''BTCUSDT'' ''BUY''
                    q False None w)
         = Inr (DryRun ''POST'' ''https://testnet.binancefuture.com/fapi/v1/order''
             [(''symbol'', VStr ''BTCUSDT''), (''side'', VStr ''BUY''), (''type'', VStr ''MARKET''),
              (''quantity'', VFloat q), (''reduceOnly'', VStr ''false''),
              (''closePosition'', VStr ''false''), (''timestamp'', ts),
              (''recvWindow'', VInt 15000),
              (''signature'', VStr (sign e (BasicBot k s TESTNET_BASE True)
                 [(''symbol'', VStr ''BTCUSDT''), (''side'', VStr ''BUY''),
                  (''type'', VStr ''MARKET''), (''quantity'', VFloat q),
                  (''reduceOnly'', VStr ''false''), (''closePosition'', VStr ''false''),
                  (''timestamp'', ts), (''recvWindow'', VInt 15000)]))]))"
proof -
  let ?b = "BasicBot k s TESTNET_BASE True"
  let ?ps = "[(''symbol'', VStr ''BTCUSDT''), (''side'', VStr ''BUY''), (''type'', VStr ''MARKET''),
              (''quantity'', VFloat q), (''reduceOnly'', VStr ''false''),
              (''closePosition'', VStr ''false'')]"
  have dry: "dry_run ?b" and url: "base_url ?b = ''https://testnet.binancefuture.com''"
    by (simp_all add: BasicBot_def TESTNET_BASE_def rstrip_slash_def)
  have eq: "place_market_order e ?b ''BTCUSDT'' ''BUY'' q False None w =
      request e ?b ''POST'' ORDER_PATH (Some ?ps) True w"
    by (simp add: place_market_order_def place_order_def upper_examples lower_def lower_char_def
        ascii_lowercase_def ascii_uppercase_def str_bool_def)
  obtain ts w2 where fp: "full_params e ?b ?ps True w =
      (dict_set (dict_set (dict_set ?ps ''timestamp'' ts) ''recvWindow'' (VInt 15000)) ''signature''
         (VStr (sign e ?b (dict_set (dict_set ?ps ''timestamp'' ts) ''recvWindow'' (VInt 15000)))),
       w2)"
    using full_params_signed_shape [of e ?b ?ps w] by blast
  have c: "calls w2 = calls w @ [time_call ?b]"
    using full_params_calls [of e ?b ?ps True w] fp by simp
  have 1: "calls (snd (place_market_order e ?b ''BTCUSDT'' ''BUY'' q False None w))
      = calls w @ [\<lparr>call_verb = GET,
                    call_url = ''https://testnet.binancefuture.com/fapi/v1/time'',
                    call_params = [], call_timeout = 5\<rparr>]"
    using c by (simp add: eq request_dry_run [OF dry] fp time_call_def url)
  have 2: "fst (place_market_order e ?b ''BTCUSDT'' ''BUY'' q False None w)
         = Inr (DryRun ''POST'' ''https://testnet.binancefuture.com/fapi/v1/order''
             (?ps @ [(''timestamp'', ts), (''recvWindow'', VInt 15000),
              (''signature'', VStr (sign e ?b
                 (?ps @ [(''timestamp'', ts), (''recvWindow'', VInt 15000)])))]))"
    by (simp add: eq request_dry_run [OF dry] fp url ORDER_PATH_def)
  from 1 2 show ?thesis by auto
qed

subsection \<open>The clock synchronizer\<close>

text \<open>
  C5. \<open>_timestamped_params\<close> stamps \<open>serverTime + 500\<close> when the time endpoint answers with
  a body that holds an integer \<open>serverTime\<close>; when the call raises, the body does not parse,
  has no \<open>serverTime\<close> or one that is not a number, it stamps the local clock in milliseconds.
  It always returns, and \<open>recvWindow\<close> is 15000 in every case.
\<close>

theorem timestamped_params_stamp:
  "(transport e (length (calls w)) (time_call b) = Responds r
      \<and> json_body r = Some (JDict kvs) \<and> map_of kvs ''serverTime'' = Some (JInt t)
      \<longrightarrow> fst (timestamped_params e b extra w) =
            dict_set (dict_set extra ''timestamp'' (VInt (t + 500))) ''recvWindow'' (VInt 15000))
   \<and> (transport e (length (calls w)) (time_call b) = Raises m
       \<or> (transport e (length (calls w)) (time_call b) = Responds r
           \<and> (json_body r = None
               \<or> (\<exists>j ex. json_body r = Some j \<and> getitem j ''serverTime'' = Inl ex)
               \<or> (\<exists>j v ex. json_body r = Some j \<and> getitem j ''serverTime'' = Inr v
                     \<and> plus_500 e v = Inl ex)))
      \<longrightarrow> fst (timestamped_params e b extra w) =
            dict_set (dict_set extra ''timestamp'' (VInt (time_ms e (clock_reads w))))
              ''recvWindow'' (VInt 15000))
   \<and> map_of (fst (timestamped_params e b extra w)) ''recvWindow'' = Some (VInt 15000)"
  by (auto simp: timestamped_params_def get_server_time_def session_call_def local_time_def
      Let_def RECV_WINDOW_def map_of_dict_set split: prod.splits sum.splits option.splits
      outcome.splits)

theorem timestamped_params_stamp_witness:
  "transport (env_answering time_response) (length (calls w0)) (time_call live_bot)
     = Responds time_response
   \<and> json_body time_response = Some (JDict [(''serverTime'', JInt 1700000000000)])
   \<and> map_of [(''serverTime'', JInt 1700000000000)] ''serverTime'' = Some (JInt 1700000000000)
   \<and> fst (timestamped_params (env_answering time_response) live_bot
             [(''symbol'', VStr ''BTCUSDT'')] w0)
       = [(''symbol'', VStr ''BTCUSDT''), (''timestamp'', VInt 1700000000500),
          (''recvWindow'', VInt 15000)]
   \<and> transport env_down (length (calls w0)) (time_call live_bot) = Raises ''connection refused''
   \<and> fst (timestamped_params env_down live_bot [(''symbol'', VStr ''BTCUSDT'')] w0)
       = [(''symbol'', VStr ''BTCUSDT''), (''timestamp'', VInt 1700000000000),
          (''recvWindow'', VInt 15000)]
   \<and> transport (env_answering html_response) (length (calls w0)) (time_call live_bot)
       = Responds html_response
   \<and> json_body html_response = None
   \<and> fst (timestamped_params (env_answering html_response) live_bot
             [(''symbol'', VStr ''BTCUSDT'')] w0)
       = [(''symbol'', VStr ''BTCUSDT''), (''timestamp'', VInt 1700000000000),
          (''recvWindow'', VInt 15000)]"
  using
    timestamped_params_stamp [of "env_answering time_response" w0 live_bot time_response
      "[(''serverTime'', JInt 1700000000000)]" 1700000000000 "[(''symbol'', VStr ''BTCUSDT'')]"
      "''connection refused''"]
    timestamped_params_stamp [of env_down w0 live_bot time_response
      "[(''serverTime'', JInt 1700000000000)]" 1700000000000 "[(''symbol'', VStr ''BTCUSDT'')]"
      "''connection refused''"]
    timestamped_params_stamp [of "env_answering html_response" w0 live_bot html_response
      "[(''serverTime'', JInt 1700000000000)]" 1700000000000 "[(''symbol'', VStr ''BTCUSDT'')]"
      "''connection refused''"]
  by (simp add: example_defs response_defs)

subsection \<open>The order builder\<close>




subsection \<open>The TWAP scheduler\<close>











text \<open>
  C8. \<open>place_twap_order\<close> raises \<open>ValueError\<close> when \<open>slices < 1\<close> or \<open>duration < 0\<close>, and
  the world is returned as it was: no call, no clock reading, no sleep.
\<close>

theorem twap_rejects_bad_plan:
  "slices < 1 \<or> duration < 0 \<Longrightarrow>
     place_twap_order e b symbol side quantity slices duration w =
       (Inl (ValueError (if slices < 1 then ''slices must be >= 1''
                         else ''duration must be >= 0'')), w)"
  by (auto simp: place_twap_order_def)

theorem twap_rejects_bad_plan_witness:
  "((0::int) < 1 \<or> (60::int) < 0)
   \<and> place_twap_order env_down live_bot ''ETHUSDT'' ''SELL'' (1/2) 0 60 w0 =
         (Inl (ValueError ''slices must be >= 1''), w0)
   \<and> ((5::int) < 1 \<or> (-1::int) < 0)
   \<and> place_twap_order env_down live_bot ''ETHUSDT'' ''SELL'' (1/2) 5 (-1) w0 =
         (Inl (ValueError ''duration must be >= 0''), w0)"
  using twap_rejects_bad_plan [of 0 60 env_down live_bot "''ETHUSDT''" "''SELL''" "1/2" w0]
    twap_rejects_bad_plan [of 5 "-1" env_down live_bot "''ETHUSDT''" "''SELL''" "1/2" w0]
  by simp





subsection \<open>The signer\<close>

lemma urlencode_loop_map:
  "urlencode_loop e query l =
     l @ map (\<lambda>(k, v). quote_plus k @ ''='' @ quote_plus (py_str e v)) query"
  by (induction query arbitrary: l) auto

lemma urlencode_fields:
  "urlencode e query =
     join ''&'' (map (\<lambda>(k, v). quote_plus k @ ''='' @ quote_plus (py_str e v)) query)"
  by (simp add: urlencode_def urlencode_loop_map)

lemma length_list_of_st: "length (list_of_st s) = 8"
  by (simp add: list_of_st_def eval_nat_numeral split: prod.splits)

lemma length_compress: "length (compress hs block) = min (length hs) 8"
  by (simp add: compress_def Let_def length_list_of_st)

lemma length_foldl_compress: "length hs = 8 \<Longrightarrow> length (foldl compress hs blocks) = 8"
  by (induction blocks arbitrary: hs) (simp_all add: length_compress)

lemma length_be_bytes: "length (be_bytes k x) = k"
  by (simp add: be_bytes_def)

lemma be_bytes_range: "y \<in> set (be_bytes k x) \<Longrightarrow> 0 \<le> y \<and> y < 256"
  by (auto simp: be_bytes_def)

lemma length_concat_be_bytes: "length (concat (map (be_bytes k) ws)) = k * length ws"
  by (induction ws) (simp_all add: length_be_bytes)

lemma length_sha256: "length (sha256 m) = 32"
  by (simp add: sha256_def length_concat_be_bytes length_foldl_compress H256_def)

lemma sha256_range: "y \<in> set (sha256 m) \<Longrightarrow> 0 \<le> y \<and> y < 256"
  using be_bytes_range by (fastforce simp: sha256_def)

lemma hmac_sha256_is_sha256: "\<exists>m. hmac_sha256 key msg = sha256 m"
  by (auto simp: hmac_sha256_def Let_def)

lemma length_hexdigest: "length (hexdigest bs) = 2 * length bs"
  by (induction bs) (simp_all add: hexdigest_def)

lemma hex_digit: "0 \<le> n \<Longrightarrow> n < 16 \<Longrightarrow> HEX_LOWER ! nat n \<in> set HEX_LOWER"
  by (rule nth_mem) (simp add: HEX_LOWER_def)

lemma set_hexdigest:
  assumes "\<And>y. y \<in> set bs \<Longrightarrow> 0 \<le> y \<and> y < 256"
  shows "set (hexdigest bs) \<subseteq> set HEX_LOWER"
proof -
  have "HEX_LOWER ! nat (y div 16) \<in> set HEX_LOWER \<and> HEX_LOWER ! nat (y mod 16) \<in> set HEX_LOWER"
    if "y \<in> set bs" for y
  proof -
    from assms [OF that] have "0 \<le> y div 16" "y div 16 < 16" "0 \<le> y mod 16" "y mod 16 < 16"
      by auto
    then show ?thesis
      by (simp add: hex_digit)
  qed
  then show ?thesis
    by (auto simp: hexdigest_def)
qed

lemma sign_hex: "length (sign e b ps) = 64 \<and> set (sign e b ps) \<subseteq> set ''0123456789abcdef''"
proof -
  obtain m where m: "hmac_sha256 (bytes_of (api_secret b)) (bytes_of (urlencode e ps)) = sha256 m"
    using hmac_sha256_is_sha256 by blast
  have "set (hexdigest (sha256 m)) \<subseteq> set HEX_LOWER"
    by (rule set_hexdigest) (rule sha256_range)
  then show ?thesis
    by (simp add: sign_def m length_hexdigest length_sha256 HEX_LOWER_def)
qed

lemma sign_ab:
  "sign env_down live_bot [(''a'', VStr ''1''), (''b'', VStr ''2'')]
     = ''604fe97c66c6393ff22e3cae366eee1131e351ebc736bf12f5d62e1755b7a233''"
  by code_simp

lemma sign_ba:
  "sign env_down live_bot [(''b'', VStr ''2''), (''a'', VStr ''1'')]
     = ''ae7fa1b7659b6eca6a812c948ac0c9fe8fe10289d6749b5534822fdafd40872c''"
  by code_simp

text \<open>The query string of a market order, as it is signed and sent.\<close>

lemma urlencode_market_order:
  "urlencode env_down
     [(''symbol'', VStr ''BTCUSDT''), (''side'', VStr ''BUY''), (''type'', VStr ''MARKET''),
      (''quantity'', VFloat (1/8)), (''reduceOnly'', VStr ''false''),
      (''closePosition'', VStr ''false''), (''timestamp'', VInt 1700000000000),
      (''recvWindow'', VInt 15000)]
   = ''symbol=BTCUSDT&side=BUY&type=MARKET&quantity=0.125&reduceOnly=false&closePosition=false&timestamp=1700000000000&recvWindow=15000''"
  by (simp add: urlencode_def quote_plus_def ALWAYS_SAFE_def pct_encode_def HEX_UPPER_def
      str_int_def str_nonneg.simps DIGITS_def env_down_def float_str3_def Let_def)

text \<open>
  Two published test vectors, as a check of the model of the library: SHA-256 of \<open>abc\<close>
  (FIPS 180-4) and test case 2 of RFC 4231 for HMAC-SHA-256.
\<close>

lemma sha256_abc:
  "hexdigest (sha256 (bytes_of ''abc''))
     = ''ba7816bf8f01cfea414140de5dae2223b00361a396177a9cb410ff61f20015ad''"
  by code_simp

lemma hmac_sha256_rfc4231_2:
  "hexdigest (hmac_sha256 (bytes_of ''Jefe'') (bytes_of ''what do ya want for nothing?''))
     = ''5bdcc146bf60754e6a042426089575c75a003f089d2739839dec58b964ec3843''"
  by code_simp

text \<open>
  C4. \<open>_sign\<close> is the lowercase hexadecimal HMAC-SHA256, keyed by the secret, of the query
  string that has one \<open>k=v\<close> field per parameter, URL-encoded, in insertion order, joined by
  \<open>&\<close>: 64 characters among \<open>0\<close> to \<open>9\<close> and \<open>a\<close> to \<open>f\<close>. It is a function of the secret and
  the ordered parameters alone (of no other field of the bot and of no state), so signing
  twice gives the same signature; and the order matters: \<open>a=1&b=2\<close> and \<open>b=2&a=1\<close> have
  different signatures under the secret \<open>secret\<close>.
\<close>

theorem sign_is_hmac_of_ordered_query:
  "sign e b ps =
     hexdigest (hmac_sha256 (bytes_of (api_secret b))
       (bytes_of (join ''&''
          (map (\<lambda>(k, v). quote_plus k @ ''='' @ quote_plus (py_str e v)) ps))))
   \<and> length (sign e b ps) = 64
   \<and> set (sign e b ps) \<subseteq> set ''0123456789abcdef''
   \<and> sign e (b\<lparr>api_key := key, base_url := url, dry_run := dry\<rparr>) ps = sign e b ps
   \<and> sign env_down live_bot [(''a'', VStr ''1''), (''b'', VStr ''2'')]
       \<noteq> sign env_down live_bot [(''b'', VStr ''2''), (''a'', VStr ''1'')]"
  using sign_hex [of e b ps]
  by (simp add: sign_ab sign_ba) (simp add: sign_def urlencode_fields)

end
